theory Spec2Isabelle
  imports Main
begin

section \<open>Frontend data model (types/index.ts)\<close>

text \<open>
  The \<open>User\<close> interface. Its \<open>role\<close> field is the union of three string literals;
  the field \<open>id\<close> is called \<open>user_id\<close> here because \<open>id\<close> is the identity function of HOL.
\<close>

datatype role = admin | clinician | viewer

record user =
  user_id :: int
  email :: string
  role :: role
  is_active :: bool
  created_at :: string

text \<open>
  What a token is at run time. TypeScript declares the tokens as strings (\<open>string | null\<close>
  in the store), but the types are erased and the response interceptor stores whatever
  the refresh response holds: a field that is missing is \<open>undefined\<close>, and a JSON body
  may carry \<open>null\<close> or a value that is not a string. The code only tests such a value
  for truthiness and converts it to a string (in the template literal of the
  \<open>Authorization\<close> header), so a value that is neither \<open>undefined\<close>, \<open>null\<close> nor a
  string is given by its string conversion and its truthiness.
\<close>

datatype js_value = Undefined | Null | Str string | Other string bool

text \<open>
  JavaScript truthiness: \<open>undefined\<close>, \<open>null\<close> and the empty string are falsy, every
  other string is truthy.
\<close>

fun truthy :: "js_value \<Rightarrow> bool" where
  "truthy Undefined = False"
| "truthy Null = False"
| "truthy (Str s) = (s \<noteq> [])"
| "truthy (Other s b) = b"

text \<open>The string a template literal puts in place of a value.\<close>

fun to_string :: "js_value \<Rightarrow> string" where
  "to_string Undefined = ''undefined''"
| "to_string Null = ''null''"
| "to_string (Str s) = s"
| "to_string (Other s b) = s"

text \<open>
  Modelled from the spec: the auth store (store/authStore.ts is not among the sources).
  Its fields and its three operations are the ones tests/authStore.test.ts exercises:
  the store starts with no user, \<open>setAuth\<close> stores user and tokens and sets
  \<open>isAuthenticated\<close>, \<open>updateTokens\<close> replaces the two tokens with the values it is
  given and keeps the user, \<open>logout\<close> sets user and tokens to \<open>null\<close>.
\<close>

record auth_state =
  user :: "user option"
  accessToken :: js_value
  refreshToken :: js_value
  isAuthenticated :: bool

definition initial_auth :: auth_state where
  "initial_auth =
     \<lparr>user = None, accessToken = Null, refreshToken = Null, isAuthenticated = False\<rparr>"

definition setAuth :: "user \<Rightarrow> string \<Rightarrow> string \<Rightarrow> auth_state \<Rightarrow> auth_state" where
  "setAuth u a r st =
     st\<lparr>user := Some u, accessToken := Str a, refreshToken := Str r, isAuthenticated := True\<rparr>"

definition updateTokens :: "js_value \<Rightarrow> js_value \<Rightarrow> auth_state \<Rightarrow> auth_state" where
  "updateTokens a r st = st\<lparr>accessToken := a, refreshToken := r\<rparr>"

definition logout :: "auth_state \<Rightarrow> auth_state" where
  "logout st =
     st\<lparr>user := None, accessToken := Null, refreshToken := Null, isAuthenticated := False\<rparr>"

section \<open>Routing (App.tsx, components/Layout.tsx)\<close>

text \<open>
  What one render of the route tree produces. \<open>Navigate\<close> is the redirect element of
  react-router (its target path is kept); \<open>LayoutEl\<close> is the sidebar layout, with the
  flag saying whether the "Audit Logs" navigation link is shown and the element rendered
  in its \<open>Outlet\<close>; the remaining constructors are the pages.
\<close>

datatype element =
    Navigate string
  | LoginPage
  | LayoutEl bool element
  | PatientsPage
  | PatientDetailPage string
  | SessionDetailPage string
  | AuditLogsPage

text \<open>\<open>user?.role\<close>: undefined (\<open>None\<close>) when there is no user.\<close>

definition user_role :: "auth_state \<Rightarrow> role option" where
  "user_role st = map_option role (user st)"

definition ProtectedRoute :: "auth_state \<Rightarrow> element \<Rightarrow> element" where
  "ProtectedRoute st children =
     (if \<not> isAuthenticated st then Navigate ''/login'' else children)"

definition AdminRoute :: "auth_state \<Rightarrow> element \<Rightarrow> element" where
  "AdminRoute st children =
     (if user_role st \<noteq> Some admin then Navigate ''/patients'' else children)"

definition Layout :: "auth_state \<Rightarrow> element \<Rightarrow> element" where
  "Layout st outlet = LayoutEl (user_role st = Some admin) outlet"

text \<open>
  How react-router compares a fixed segment of a route's path with a segment of the
  location: ignoring the case of the letters A to Z, since no route of \<open>App\<close> sets
  \<open>caseSensitive\<close>. A parameter (\<open>:patientId\<close>, \<open>:sessionId\<close>) matches any segment
  that is not empty.
\<close>

definition lower :: "char \<Rightarrow> char" where
  "lower c =
     (case map_of (zip ''ABCDEFGHIJKLMNOPQRSTUVWXYZ'' ''abcdefghijklmnopqrstuvwxyz'') c of
        None \<Rightarrow> c
      | Some l \<Rightarrow> l)"

definition segment_matches :: "string \<Rightarrow> string \<Rightarrow> bool" where
  "segment_matches pattern seg = (map lower seg = map lower pattern)"

text \<open>
  The route table of \<open>App\<close>, on the pathname the router matches against (the
  location's pathname, URI-decoded) without its leading slash and its trailing slashes,
  split at the slashes: \<open>/patients/7\<close> is \<open>[''patients'', ''7'']\<close>, \<open>/AUDIT/\<close> is
  \<open>[''AUDIT'']\<close>, \<open>/\<close> is \<open>[]\<close>. The routes nested under \<open>/\<close> render inside
  \<open>ProtectedRoute\<close> and \<open>Layout\<close>; a path no route matches falls to the \<open>*\<close> route.
\<close>

fun App :: "auth_state \<Rightarrow> string list \<Rightarrow> element" where
  "App st [seg] =
     (if segment_matches ''login'' seg then LoginPage
      else if segment_matches ''patients'' seg then ProtectedRoute st (Layout st PatientsPage)
      else if segment_matches ''audit'' seg then
        ProtectedRoute st (Layout st (AdminRoute st AuditLogsPage))
      else Navigate ''/patients'')"
| "App st [] = ProtectedRoute st (Layout st (Navigate ''/patients''))"
| "App st [seg, param] =
     (if segment_matches ''patients'' seg \<and> param \<noteq> [] then
        ProtectedRoute st (Layout st (PatientDetailPage param))
      else if segment_matches ''sessions'' seg \<and> param \<noteq> [] then
        ProtectedRoute st (Layout st (SessionDetailPage param))
      else Navigate ''/patients'')"
| "App st path = Navigate ''/patients''"

text \<open>Whether the audit-logs page occurs in a rendered element.\<close>

fun renders_audit :: "element \<Rightarrow> bool" where
  "renders_audit AuditLogsPage = True"
| "renders_audit (LayoutEl nav outlet) = renders_audit outlet"
| "renders_audit e = False"

section \<open>Audit-log pager (pages/AuditLogs.tsx)\<close>

record audit_log =
  log_id :: int
  actor_user_id :: int
  log_action :: string
  entity_type :: string
  entity_id :: int
  before_hash :: "string option"
  after_hash :: "string option"
  metadata_json :: "string option"
  log_created_at :: string

text \<open>
  The component's state hooks. \<open>offset\<close> and \<open>total\<close> are JavaScript numbers, which
  may be negative, so they are integers here and the \<open>Math.max\<close> of the source is
  written out.
\<close>

record audit_page =
  logs :: "audit_log list"
  loading :: bool
  error :: string
  total :: int
  offset :: int
  entityType :: string
  action :: string

definition limit :: int where
  "limit = 50"

definition initial_page :: audit_page where
  "initial_page =
     \<lparr>logs = [], loading = True, error = [], total = 0, offset = 0,
      entityType = [], action = []\<rparr>"

text \<open>
  The pager (both buttons) is rendered only in the last branch of the conditional:
  not loading, and at least one log.
\<close>

definition pager_shown :: "audit_page \<Rightarrow> bool" where
  "pager_shown s = (\<not> loading s \<and> length (logs s) \<noteq> 0)"

definition previous_disabled :: "audit_page \<Rightarrow> bool" where
  "previous_disabled s = (offset s = 0)"

definition next_disabled :: "audit_page \<Rightarrow> bool" where
  "next_disabled s = (offset s + limit \<ge> total s)"

text \<open>The four \<open>onClick\<close>/\<open>onChange\<close> handlers.\<close>

definition onClickPrevious :: "audit_page \<Rightarrow> audit_page" where
  "onClickPrevious s = s\<lparr>offset := max 0 (offset s - limit)\<rparr>"

definition onClickNext :: "audit_page \<Rightarrow> audit_page" where
  "onClickNext s = s\<lparr>offset := offset s + limit\<rparr>"

definition onChangeEntityType :: "string \<Rightarrow> audit_page \<Rightarrow> audit_page" where
  "onChangeEntityType v s = s\<lparr>entityType := v, offset := 0\<rparr>"

definition onChangeAction :: "string \<Rightarrow> audit_page \<Rightarrow> audit_page" where
  "onChangeAction v s = s\<lparr>action := v, offset := 0\<rparr>"

text \<open>
  What can happen to the page: the user clicks a button (a click on a button that is not
  rendered or is disabled runs no handler), changes one of the two filters, and the
  steps of \<open>fetchLogs\<close> (started by the effect; its answer, with whatever \<open>logs\<close> and
  \<open>total\<close> the server sends, or its failure) arrive at any time.
\<close>

datatype event =
    ClickPrevious
  | ClickNext
  | ChangeEntityType string
  | ChangeAction string
  | FetchStarted
  | FetchSucceeded "audit_log list" int
  | FetchFailed

fun step :: "audit_page \<Rightarrow> event \<Rightarrow> audit_page" where
  "step s ClickPrevious =
     (if pager_shown s \<and> \<not> previous_disabled s then onClickPrevious s else s)"
| "step s ClickNext =
     (if pager_shown s \<and> \<not> next_disabled s then onClickNext s else s)"
| "step s (ChangeEntityType v) = onChangeEntityType v s"
| "step s (ChangeAction v) = onChangeAction v s"
| "step s FetchStarted = s\<lparr>loading := True\<rparr>"
| "step s (FetchSucceeded ls t) = s\<lparr>logs := ls, total := t, loading := False\<rparr>"
| "step s FetchFailed = s\<lparr>error := ''Failed to load audit logs'', loading := False\<rparr>"

definition run_events :: "event list \<Rightarrow> audit_page" where
  "run_events evs = foldl step initial_page evs"

section \<open>HTTP client (api/client.ts)\<close>

text \<open>
  The part of an axios request configuration the interceptors read and write: the URL,
  the \<open>Authorization\<close> header and the custom field \<open>_retry\<close> (\<open>retry\<close> here, since a
  name cannot start with an underscore), which is absent, hence falsy, on a fresh
  request.
\<close>

record request_config =
  url :: string
  authorization :: "string option"
  retry :: bool

text \<open>
  What a promise is rejected with: an \<open>AxiosError\<close>, with \<open>response?.status\<close> (\<open>None\<close>
  when there is no response, as on a network failure) and the request's configuration,
  or the \<open>TypeError\<close> that destructuring a missing \<open>response.data\<close> throws.
\<close>

datatype js_error = AxiosError "nat option" request_config | TypeError

datatype 'a promise = Resolve 'a | Reject js_error

text \<open>
  The answer to the refresh request: a failure with its status, or a response. Of a
  response the interceptor reads \<open>data\<close> only, by destructuring: when \<open>data\<close> is \<open>null\<close>
  or \<open>undefined\<close> (\<open>None\<close>) that throws the \<open>TypeError\<close>; of any other \<open>data\<close> it
  takes the two fields \<open>access_token\<close> and \<open>refresh_token\<close>, each \<open>undefined\<close> when
  \<open>data\<close> has no such field (an empty body, \<open>{}\<close>).
\<close>

datatype refresh_answer =
    RefreshFailed "nat option"
  | RefreshData "(js_value \<times> js_value) option"

text \<open>
  The server, as the client sees it. \<open>respond n cfg\<close> answers the \<open>n\<close>-th request that
  \<open>apiClient\<close> puts on the wire (counted from 0) with a failure status or a body;
  \<open>refresh_respond n tok\<close> answers the \<open>n\<close>-th refresh request. Any behaviour of the
  server is one such pair of functions.
\<close>

record network =
  respond :: "nat \<Rightarrow> request_config \<Rightarrow> nat option + string"
  refresh_respond :: "nat \<Rightarrow> js_value \<Rightarrow> refresh_answer"

text \<open>
  Everything the interceptors change: the auth store, \<open>window.location.href\<close>, and,
  to count them, the requests sent through \<open>apiClient\<close> and the refresh tokens posted
  to \<open>/auth/refresh\<close> (the store's value, as it is), both in order.
\<close>

record world =
  auth :: auth_state
  location_href :: string
  sent :: "request_config list"
  refreshes :: "js_value list"

definition API_BASE_URL :: string where
  "API_BASE_URL = ''/api/v1''"

definition refresh_config :: request_config where
  "refresh_config = \<lparr>url = API_BASE_URL @ ''/auth/refresh'', authorization = None, retry = False\<rparr>"

text \<open>The request interceptor adds the bearer token when the store has a truthy one.\<close>

definition request_interceptor :: "auth_state \<Rightarrow> request_config \<Rightarrow> request_config" where
  "request_interceptor st config =
     (let token = accessToken st
      in if truthy token then config\<lparr>authorization := Some (''Bearer '' @ to_string token)\<rparr>
         else config)"

definition logout_and_redirect :: "world \<Rightarrow> world" where
  "logout_and_redirect w = w\<lparr>auth := logout (auth w), location_href := ''/login''\<rparr>"

text \<open>
  \<open>apiClient\<close> runs the request interceptor, sends the request and, on a failure, hands
  the error to the response interceptor's error handler, \<open>response_rejected\<close>. The
  handler is given the error's status and its \<open>config\<close>, which is the configuration that
  was sent: axios keeps the fields it does not know, \<open>_retry\<close> among them. Setting
  \<open>originalRequest._retry\<close> changes the error's own \<open>config\<close>, the same object, so the
  error rejected at the end of the handler carries the flag. The refresh request goes
  through the global \<open>axios\<close>, which has no interceptors. In the \<open>try\<close> block the retry
  is returned and not awaited, so its rejection is not caught there.
\<close>

function apiClient :: "network \<Rightarrow> world \<Rightarrow> request_config \<Rightarrow> world \<times> string promise"
  and response_rejected ::
    "network \<Rightarrow> world \<Rightarrow> nat option \<Rightarrow> request_config \<Rightarrow> world \<times> string promise"
where
  "apiClient net w config =
     (let config' = request_interceptor (auth w) config;
          w' = w\<lparr>sent := sent w @ [config']\<rparr>
      in case respond net (length (sent w)) config' of
           Inr body \<Rightarrow> (w', Resolve body)
         | Inl status \<Rightarrow> response_rejected net w' status config')"
| "response_rejected net w status originalRequest =
     (if status = Some 401 \<and> \<not> retry originalRequest then
        (if truthy (refreshToken (auth w)) then
           (let w1 = w\<lparr>refreshes := refreshes w @ [refreshToken (auth w)]\<rparr> in
            case refresh_respond net (length (refreshes w)) (refreshToken (auth w)) of
              RefreshFailed st \<Rightarrow>
                (logout_and_redirect w1, Reject (AxiosError st refresh_config))
            | RefreshData None \<Rightarrow> (logout_and_redirect w1, Reject TypeError)
            | RefreshData (Some (access_token, refresh_token)) \<Rightarrow>
                apiClient net
                  (w1\<lparr>auth := updateTokens access_token refresh_token (auth w1)\<rparr>)
                  (originalRequest\<lparr>retry := True,
                     authorization := Some (''Bearer '' @ to_string access_token)\<rparr>))
         else
           (logout_and_redirect w, Reject (AxiosError status (originalRequest\<lparr>retry := True\<rparr>))))
      else (w, Reject (AxiosError status originalRequest)))"
  by pat_completeness auto

lemma retry_request_interceptor: "retry (request_interceptor st config) = retry config"
  by (simp add: request_interceptor_def Let_def)

termination apiClient
  by (relation "measure (\<lambda>x. case x of
        Inl (net, w, config) \<Rightarrow> (if retry config then 1 else 3)
      | Inr (net, w, status, config) \<Rightarrow> (if retry config then 0 else 2))")
     (auto simp: retry_request_interceptor)

declare apiClient.simps [simp del] response_rejected.simps [simp del]

text \<open>A fresh request, as the helper functions of \<open>api\<close> make it.\<close>

definition fresh_request :: "string \<Rightarrow> request_config" where
  "fresh_request u = \<lparr>url = u, authorization = None, retry = False\<rparr>"

definition initial_world :: "auth_state \<Rightarrow> world" where
  "initial_world st = \<lparr>auth = st, location_href = ''/'', sent = [], refreshes = []\<rparr>"

section \<open>Generation pipeline (backend services)\<close>

subsection \<open>Injection detector\<close>

text \<open>
  Modelled from the spec: the Injection Detector (the backend's services/guardrails.py
  is not among the sources; the README shows only part of its pattern list). Following
  sections 3, 4.2 and 9 of the specification, the rule set is an ordered list handed to
  the detector, each rule a pattern identifier with its matcher (the case-insensitive
  regular-expression search), and the detector evaluates every rule in order, without
  stopping at the first match, raising the flag and recording the identifier of each
  rule that matches.
\<close>

record injection_verdict =
  flag :: bool
  matched_patterns :: "string list"

type_synonym rule = "string \<times> (string \<Rightarrow> bool)"

fun evaluate_rules :: "rule list \<Rightarrow> string \<Rightarrow> injection_verdict \<Rightarrow> injection_verdict" where
  "evaluate_rules [] text v = v"
| "evaluate_rules ((pattern, search) # rules) text v =
     evaluate_rules rules text
       (if search text then v\<lparr>flag := True, matched_patterns := matched_patterns v @ [pattern]\<rparr>
        else v)"

definition detect :: "rule list \<Rightarrow> string \<Rightarrow> injection_verdict" where
  "detect rules text = evaluate_rules rules text \<lparr>flag = False, matched_patterns = []\<rparr>"

subsection \<open>Generation client\<close>

text \<open>
  Modelled from the spec: the Generation Client (the backend's services/llm_client.py
  is not among the sources). Section 4.4: a call to the provider either returns the raw
  output or fails; timeouts, rate limits and transient provider errors are retried,
  authentication and invalid-request failures surface at once; there are at most two
  attempts, and the wait between them is exponential in the attempt number and kept
  between 1 and 10 seconds (in whole seconds here).
\<close>

datatype provider_failure = Transient | AuthFailure | InvalidRequest

datatype generation_error = Timeout | RateLimited | ProviderError provider_failure

fun retriable :: "generation_error \<Rightarrow> bool" where
  "retriable Timeout = True"
| "retriable RateLimited = True"
| "retriable (ProviderError Transient) = True"
| "retriable (ProviderError AuthFailure) = False"
| "retriable (ProviderError InvalidRequest) = False"

definition max_attempts :: nat where
  "max_attempts = 2"

definition backoff :: "nat \<Rightarrow> nat" where
  "backoff attempt = max 1 (min 10 (2 ^ (attempt - 1)))"

text \<open>
  What the client does, in order: \<open>Call n\<close> is the network call of attempt \<open>n\<close>,
  \<open>Wait d\<close> a pause of \<open>d\<close> seconds.
\<close>

datatype client_event = Call nat | Wait nat

text \<open>
  \<open>provider n prompt\<close> is what the external model answers to attempt \<open>n\<close>; any
  behaviour of the provider is such a function. \<open>attempt_from\<close> runs attempt \<open>n\<close> and
  the attempts after it; \<open>generate\<close> starts at attempt 1.
\<close>

function attempt_from ::
  "(nat \<Rightarrow> string \<Rightarrow> generation_error + string) \<Rightarrow> string \<Rightarrow> nat \<Rightarrow>
     (generation_error + string) \<times> client_event list"
where
  "attempt_from provider prompt n =
     (case provider n prompt of
        Inr raw \<Rightarrow> (Inr raw, [Call n])
      | Inl e \<Rightarrow>
          if retriable e \<and> n < max_attempts then
            (let (r, evs) = attempt_from provider prompt (Suc n)
             in (r, Call n # Wait (backoff n) # evs))
          else (Inl e, [Call n]))"
  by pat_completeness auto
termination attempt_from
  by (relation "measure (\<lambda>(provider, prompt, n). max_attempts - n)") auto

declare attempt_from.simps [simp del]

definition generate ::
  "(nat \<Rightarrow> string \<Rightarrow> generation_error + string) \<Rightarrow> string \<Rightarrow>
     (generation_error + string) \<times> client_event list"
where
  "generate provider prompt = attempt_from provider prompt 1"

fun is_call :: "client_event \<Rightarrow> bool" where
  "is_call (Call n) = True"
| "is_call (Wait d) = False"

fun waits :: "client_event list \<Rightarrow> nat list" where
  "waits [] = []"
| "waits (Call n # evs) = waits evs"
| "waits (Wait d # evs) = d # waits evs"

subsection \<open>Output validator and repairer\<close>

text \<open>
  Modelled from the spec: the Output Validator/Repairer (part of the backend's
  services/llm_client.py, not among the sources). Section 4.5 gives it as a state
  machine. Parse strips the code fencing and parses the text as JSON; Validate checks
  the parsed value against the schema; a failure of either, on the first pass, enters
  Repair, which sends one generation request built from the prior output and the errors
  found and goes through Parse and Validate again with its answer; a failure on the
  repair pass is the terminal \<open>SchemaValidationError\<close> with that failure's detail.
  The JSON parser, the schema check and the text of the repair prompt are parameters.
  A repair request that the client fails to answer is not described by section 4.5;
  its error is passed on unmodified, the propagation policy of section 7.
\<close>

datatype validation_failure = ParseFailure string | SchemaFailure string

datatype pipeline_error =
    SchemaValidationError validation_failure
  | GenerationError generation_error

datatype pass = FirstPass | RepairPass

record ('json, 'doc) schema =
  strip_fence :: "string \<Rightarrow> string"
  parse_json :: "string \<Rightarrow> string + 'json"
  validate :: "'json \<Rightarrow> string + 'doc"
  repair_prompt :: "string \<Rightarrow> validation_failure \<Rightarrow> string"

definition parse_and_validate :: "('json, 'doc) schema \<Rightarrow> string \<Rightarrow> validation_failure + 'doc" where
  "parse_and_validate sch raw =
     (case parse_json sch (strip_fence sch raw) of
        Inl detail \<Rightarrow> Inl (ParseFailure detail)
      | Inr json \<Rightarrow>
          (case validate sch json of
             Inl detail \<Rightarrow> Inl (SchemaFailure detail)
           | Inr doc \<Rightarrow> Inr doc))"

text \<open>
  The result comes with the generation requests the repairer issued, in order.
\<close>

function validate_pass ::
  "('json, 'doc) schema \<Rightarrow> (string \<Rightarrow> generation_error + string) \<Rightarrow> pass \<Rightarrow> string \<Rightarrow>
     (pipeline_error + 'doc) \<times> string list"
where
  "validate_pass sch client p raw =
     (case parse_and_validate sch raw of
        Inr doc \<Rightarrow> (Inr doc, [])
      | Inl failure \<Rightarrow>
          (case p of
             RepairPass \<Rightarrow> (Inl (SchemaValidationError failure), [])
           | FirstPass \<Rightarrow>
               (case client (repair_prompt sch raw failure) of
                  Inl e \<Rightarrow> (Inl (GenerationError e), [repair_prompt sch raw failure])
                | Inr repaired \<Rightarrow>
                    (let (r, requests) = validate_pass sch client RepairPass repaired
                     in (r, repair_prompt sch raw failure # requests)))))"
  by pat_completeness auto
termination validate_pass
  by (relation "measure (\<lambda>(sch, client, p, raw). case p of FirstPass \<Rightarrow> 1 | RepairPass \<Rightarrow> 0)") auto

declare validate_pass.simps [simp del]

definition validateAndRepair ::
  "('json, 'doc) schema \<Rightarrow> (string \<Rightarrow> generation_error + string) \<Rightarrow> string \<Rightarrow>
     (pipeline_error + 'doc) \<times> string list"
where
  "validateAndRepair sch client rawOutput = validate_pass sch client FirstPass rawOutput"

section \<open>Routing: the audit page is for administrators\<close>

lemma renders_audit_Protected:
  "renders_audit (ProtectedRoute st e) = (isAuthenticated st \<and> renders_audit e)"
  by (simp add: ProtectedRoute_def)

lemma renders_audit_Layout: "renders_audit (Layout st e) = renders_audit e"
  by (simp add: Layout_def)

lemma renders_audit_Admin:
  "renders_audit (AdminRoute st e) = (user_role st = Some admin \<and> renders_audit e)"
  by (simp add: AdminRoute_def)

lemma segment_matches_audit:
  "segment_matches ''audit'' seg \<Longrightarrow>
   \<not> segment_matches ''login'' seg \<and> \<not> segment_matches ''patients'' seg"
  by (auto simp: segment_matches_def lower_def)

lemma renders_audit_App:
  "renders_audit (App st path) =
     ((\<exists>seg. path = [seg] \<and> segment_matches ''audit'' seg)
      \<and> isAuthenticated st \<and> user_role st = Some admin)"
  by (cases "(st, path)" rule: App.cases)
     (auto simp: renders_audit_Protected renders_audit_Layout renders_audit_Admin
        dest: segment_matches_audit)

text \<open>
  Claim C9. Whenever the current user's role is not \<open>admin\<close>, and also when there is no
  user, \<open>AdminRoute\<close> renders the redirect to \<open>/patients\<close>, whatever its children are;
  and no path makes \<open>App\<close> render the audit-logs page unless the store is authenticated
  and its user's role is \<open>admin\<close>.
\<close>

theorem AdminRoute_only_admin:
  "(user_role st \<noteq> Some admin \<longrightarrow> AdminRoute st children = Navigate ''/patients'')
   \<and> (user st = None \<longrightarrow> AdminRoute st children = Navigate ''/patients'')
   \<and> (renders_audit (App st path) \<longrightarrow> isAuthenticated st \<and> user_role st = Some admin)"
  by (simp add: renders_audit_App) (simp add: AdminRoute_def user_role_def)

theorem AdminRoute_only_admin_witness:
  "AdminRoute (setAuth \<lparr>user_id = 2, email = ''viewer@clinician-copilot.local'', role = viewer,
        is_active = True, created_at = ''2024-01-01T00:00:00Z''\<rparr> ''access'' ''refresh'' initial_auth)
      AuditLogsPage = Navigate ''/patients''
   \<and> AdminRoute initial_auth AuditLogsPage = Navigate ''/patients''
   \<and> renders_audit (App (setAuth \<lparr>user_id = 1, email = ''admin@clinician-copilot.local'',
        role = admin, is_active = True, created_at = ''2024-01-01T00:00:00Z''\<rparr>
        ''access'' ''refresh'' initial_auth) [''Audit''])
   \<and> isAuthenticated (setAuth \<lparr>user_id = 1, email = ''admin@clinician-copilot.local'',
        role = admin, is_active = True, created_at = ''2024-01-01T00:00:00Z''\<rparr>
        ''access'' ''refresh'' initial_auth)
   \<and> user_role (setAuth \<lparr>user_id = 1, email = ''admin@clinician-copilot.local'',
        role = admin, is_active = True, created_at = ''2024-01-01T00:00:00Z''\<rparr>
        ''access'' ''refresh'' initial_auth) = Some admin"
proof -
  let ?v = "setAuth \<lparr>user_id = 2, email = ''viewer@clinician-copilot.local'', role = viewer,
        is_active = True, created_at = ''2024-01-01T00:00:00Z''\<rparr> ''access'' ''refresh'' initial_auth"
  let ?a = "setAuth \<lparr>user_id = 1, email = ''admin@clinician-copilot.local'',
        role = admin, is_active = True, created_at = ''2024-01-01T00:00:00Z''\<rparr>
        ''access'' ''refresh'' initial_auth"
  have v: "user_role ?v \<noteq> Some admin"
    by (simp add: user_role_def setAuth_def initial_auth_def)
  have n: "user initial_auth = None"
    by (simp add: initial_auth_def)
  have a: "renders_audit (App ?a [''Audit''])"
    by (simp add: segment_matches_def lower_def ProtectedRoute_def Layout_def AdminRoute_def
        user_role_def setAuth_def initial_auth_def)
  from v AdminRoute_only_admin [of ?v AuditLogsPage "[]"]
  have 1: "AdminRoute ?v AuditLogsPage = Navigate ''/patients''" by blast
  from n AdminRoute_only_admin [of initial_auth AuditLogsPage "[]"]
  have 2: "AdminRoute initial_auth AuditLogsPage = Navigate ''/patients''" by blast
  from a AdminRoute_only_admin [of ?a AuditLogsPage "[''Audit'']"]
  have 3: "isAuthenticated ?a \<and> user_role ?a = Some admin" by blast
  from 1 2 3 a show ?thesis by blast
qed

section \<open>The pager's offset\<close>

lemma step_offset_nonneg: "0 \<le> offset s \<Longrightarrow> 0 \<le> offset (step s e)"
  by (cases e) (simp_all add: onClickPrevious_def onClickNext_def onChangeEntityType_def
      onChangeAction_def limit_def)

lemma foldl_step_offset_nonneg: "0 \<le> offset s \<Longrightarrow> 0 \<le> offset (foldl step s evs)"
  by (induction evs arbitrary: s) (simp_all add: step_offset_nonneg)

lemma run_events_offset_nonneg: "0 \<le> offset (run_events evs)"
  unfolding run_events_def
  by (rule foldl_step_offset_nonneg) (simp add: initial_page_def)

text \<open>
  Claim C10. After any sequence of Previous/Next clicks, filter changes and fetch
  results, starting from the component's initial state, the offset is not negative; in
  the state reached, the Previous handler sets the offset to \<open>max 0 (offset - limit)\<close>
  and its button is disabled exactly when the offset is 0, the Next button is disabled
  exactly when \<open>offset + limit \<ge> total\<close>, and changing either filter sets the offset
  to 0.
\<close>

theorem pager_offset_never_negative:
  "0 \<le> offset (run_events evs)
   \<and> offset (onClickPrevious (run_events evs)) = max 0 (offset (run_events evs) - limit)
   \<and> previous_disabled (run_events evs) = (offset (run_events evs) = 0)
   \<and> next_disabled (run_events evs) = (offset (run_events evs) + limit \<ge> total (run_events evs))
   \<and> offset (step (run_events evs) (ChangeEntityType v)) = 0
   \<and> offset (step (run_events evs) (ChangeAction v)) = 0
   \<and> 0 \<le> offset (step (run_events evs) ClickPrevious)
   \<and> 0 \<le> offset (step (run_events evs) ClickNext)"
proof -
  have nn: "0 \<le> offset (run_events evs)"
    by (rule run_events_offset_nonneg)
  have h: "offset (onClickPrevious (run_events evs)) = max 0 (offset (run_events evs) - limit)"
    by (simp add: onClickPrevious_def)
  have f: "offset (step (run_events evs) (ChangeEntityType v)) = 0"
    "offset (step (run_events evs) (ChangeAction v)) = 0"
    by (simp_all add: onChangeEntityType_def onChangeAction_def)
  from nn have c: "0 \<le> offset (step (run_events evs) ClickPrevious)"
    "0 \<le> offset (step (run_events evs) ClickNext)"
    by (rule step_offset_nonneg)+
  from nn h f c show ?thesis
    by (simp add: previous_disabled_def next_disabled_def)
qed

section \<open>The response interceptor refreshes at most once\<close>



lemma apiClient_retried:
  "retry config \<Longrightarrow>
   apiClient net w config =
     (let config' = request_interceptor (auth w) config;
          w' = w\<lparr>sent := sent w @ [config']\<rparr>
      in case respond net (length (sent w)) config' of
           Inr body \<Rightarrow> (w', Resolve body)
         | Inl status \<Rightarrow> (w', Reject (AxiosError status config')))"
  by (simp add: apiClient.simps response_rejected.simps retry_request_interceptor Let_def
      split: sum.splits)

lemma apiClient_retried_counts:
  assumes "retry config"
  shows "sent (fst (apiClient net w config)) = sent w @ [request_interceptor (auth w) config]"
    and "refreshes (fst (apiClient net w config)) = refreshes w"
    and "auth (fst (apiClient net w config)) = auth w"
  using assms by (simp_all add: apiClient_retried Let_def split: sum.splits)

lemma response_rejected_counts:
  "length (sent (fst (response_rejected net w status config))) \<le> length (sent w) + 1
   \<and> length (refreshes (fst (response_rejected net w status config))) \<le> length (refreshes w) + 1"
  by (simp add: response_rejected.simps apiClient_retried_counts logout_and_redirect_def Let_def
      split: option.splits refresh_answer.splits prod.splits)

lemma apiClient_counts:
  "length (sent (fst (apiClient net w config))) \<le> length (sent w) + 2
   \<and> length (refreshes (fst (apiClient net w config))) \<le> length (refreshes w) + 1"
proof (cases "respond net (length (sent w)) (request_interceptor (auth w) config)")
  case (Inr body)
  then show ?thesis by (simp add: apiClient.simps Let_def)
next
  case (Inl status)
  let ?w = "w\<lparr>sent := sent w @ [request_interceptor (auth w) config]\<rparr>"
  from Inl have "apiClient net w config =
      response_rejected net ?w status (request_interceptor (auth w) config)"
    by (simp add: apiClient.simps Let_def)
  with response_rejected_counts [of net ?w status "request_interceptor (auth w) config"]
  show ?thesis by simp
qed


lemma rejected_no_refresh_token:
  assumes "\<not> retry config" and "\<not> truthy (refreshToken (auth w))"
  shows "response_rejected net w (Some 401) config =
     (logout_and_redirect w, Reject (AxiosError (Some 401) (config\<lparr>retry := True\<rparr>)))"
  using assms by (simp add: response_rejected.simps)

lemma rejected_refresh_failed:
  assumes "\<not> retry config" and "refreshToken (auth w) = tok" and "truthy tok"
    and "refresh_respond net (length (refreshes w)) tok = RefreshFailed st"
  shows "response_rejected net w (Some 401) config =
     (logout_and_redirect (w\<lparr>refreshes := refreshes w @ [tok]\<rparr>),
      Reject (AxiosError st refresh_config))"
  using assms by (simp add: response_rejected.simps)

lemma rejected_refresh_no_data:
  assumes "\<not> retry config" and "refreshToken (auth w) = tok" and "truthy tok"
    and "refresh_respond net (length (refreshes w)) tok = RefreshData None"
  shows "response_rejected net w (Some 401) config =
     (logout_and_redirect (w\<lparr>refreshes := refreshes w @ [tok]\<rparr>), Reject TypeError)"
  using assms by (simp add: response_rejected.simps)

lemma apiClient_failed:
  assumes "respond net (length (sent w)) (request_interceptor (auth w) config) = Inl status"
  shows "apiClient net w config =
     response_rejected net (w\<lparr>sent := sent w @ [request_interceptor (auth w) config]\<rparr>)
       status (request_interceptor (auth w) config)"
  using assms by (simp add: apiClient.simps Let_def)

text \<open>
  A refresh that answers with a body that has no tokens (\<open>{}\<close>, an empty body) is not
  a failure for the interceptor: the store gets the two \<open>undefined\<close> values, nobody is
  logged out, and the request goes out once more, with the header \<open>Bearer undefined\<close>;
  its second 401 is rejected as it is, since \<open>_retry\<close> is set.
\<close>

lemma refresh_without_tokens:
  "apiClient
     \<lparr>respond = \<lambda>n c. Inl (Some 401),
      refresh_respond = \<lambda>n t. RefreshData (Some (Undefined, Undefined))\<rparr>
     (initial_world (updateTokens (Str ''a'') (Str ''r'') initial_auth))
     (fresh_request ''/patients'') =
   (\<lparr>auth = updateTokens Undefined Undefined initial_auth, location_href = ''/'',
     sent = [\<lparr>url = ''/patients'', authorization = Some ''Bearer a'', retry = False\<rparr>,
             \<lparr>url = ''/patients'', authorization = Some ''Bearer undefined'', retry = True\<rparr>],
     refreshes = [Str ''r'']\<rparr>,
    Reject (AxiosError (Some 401)
      \<lparr>url = ''/patients'', authorization = Some ''Bearer undefined'', retry = True\<rparr>))"
  by (simp add: apiClient.simps response_rejected.simps request_interceptor_def Let_def
      initial_world_def initial_auth_def updateTokens_def fresh_request_def)

text \<open>
  Claim C8. While \<open>apiClient\<close> handles one request, whatever the server answers, at most
  one refresh request is made and the request goes on the wire at most twice (once, and
  once more after a refresh that was answered): the second failure finds \<open>_retry\<close> set.
  When a fresh request fails with status 401 and the store holds no (truthy) refresh
  token, the store is logged out and the 401 error itself is rejected, with no refresh
  and no second send. When the store holds a refresh token and the refresh request
  fails, or its response has no \<open>data\<close>, the store is logged out and the refresh's
  error is rejected; the request is not sent again.
\<close>

theorem refresh_attempted_at_most_once:
  "length (sent (fst (apiClient net w config))) \<le> length (sent w) + 2
   \<and> length (refreshes (fst (apiClient net w config))) \<le> length (refreshes w) + 1
   \<and> (\<not> retry config
        \<and> respond net (length (sent w)) (request_interceptor (auth w) config) = Inl (Some 401)
        \<and> \<not> truthy (refreshToken (auth w)) \<longrightarrow>
        auth (fst (apiClient net w config)) = logout (auth w)
        \<and> snd (apiClient net w config) =
            Reject (AxiosError (Some 401) ((request_interceptor (auth w) config)\<lparr>retry := True\<rparr>))
        \<and> sent (fst (apiClient net w config)) = sent w @ [request_interceptor (auth w) config]
        \<and> refreshes (fst (apiClient net w config)) = refreshes w)
   \<and> (\<not> retry config
        \<and> respond net (length (sent w)) (request_interceptor (auth w) config) = Inl (Some 401)
        \<and> refreshToken (auth w) = tok \<and> truthy tok
        \<and> (\<forall>t. refresh_respond net (length (refreshes w)) tok \<noteq> RefreshData (Some t)) \<longrightarrow>
        auth (fst (apiClient net w config)) = logout (auth w)
        \<and> snd (apiClient net w config) =
            Reject (case refresh_respond net (length (refreshes w)) tok of
                      RefreshFailed st \<Rightarrow> AxiosError st refresh_config
                    | RefreshData d \<Rightarrow> TypeError)
        \<and> sent (fst (apiClient net w config)) = sent w @ [request_interceptor (auth w) config]
        \<and> refreshes (fst (apiClient net w config)) = refreshes w @ [tok])"
proof (intro conjI impI)
  show "length (sent (fst (apiClient net w config))) \<le> length (sent w) + 2"
    using apiClient_counts [of net w config] by simp
  show "length (refreshes (fst (apiClient net w config))) \<le> length (refreshes w) + 1"
    using apiClient_counts [of net w config] by simp
next
  let ?c = "request_interceptor (auth w) config"
  let ?w = "w\<lparr>sent := sent w @ [?c]\<rparr>"
  assume a: "\<not> retry config \<and> respond net (length (sent w)) ?c = Inl (Some 401)
      \<and> \<not> truthy (refreshToken (auth w))"
  then have "apiClient net w config = response_rejected net ?w (Some 401) ?c"
    by (simp add: apiClient_failed)
  also from a have "\<dots> = (logout_and_redirect ?w, Reject (AxiosError (Some 401) (?c\<lparr>retry := True\<rparr>)))"
    by (intro rejected_no_refresh_token) (simp_all add: retry_request_interceptor)
  finally have r: "apiClient net w config =
      (logout_and_redirect ?w, Reject (AxiosError (Some 401) (?c\<lparr>retry := True\<rparr>)))" .
  show "auth (fst (apiClient net w config)) = logout (auth w)"
    "snd (apiClient net w config) = Reject (AxiosError (Some 401) (?c\<lparr>retry := True\<rparr>))"
    "sent (fst (apiClient net w config)) = sent w @ [?c]"
    "refreshes (fst (apiClient net w config)) = refreshes w"
    by (simp_all add: r logout_and_redirect_def)
next
  let ?c = "request_interceptor (auth w) config"
  let ?w = "w\<lparr>sent := sent w @ [?c]\<rparr>"
  let ?e = "case refresh_respond net (length (refreshes w)) tok of
              RefreshFailed st \<Rightarrow> AxiosError st refresh_config
            | RefreshData d \<Rightarrow> TypeError"
  assume a: "\<not> retry config \<and> respond net (length (sent w)) ?c = Inl (Some 401)
      \<and> refreshToken (auth w) = tok \<and> truthy tok
      \<and> (\<forall>t. refresh_respond net (length (refreshes w)) tok \<noteq> RefreshData (Some t))"
  then have 1: "apiClient net w config = response_rejected net ?w (Some 401) ?c"
    by (simp add: apiClient_failed)
  have r: "apiClient net w config =
      (logout_and_redirect (?w\<lparr>refreshes := refreshes ?w @ [tok]\<rparr>), Reject ?e)"
  proof (cases "refresh_respond net (length (refreshes w)) tok")
    case (RefreshFailed st)
    with a rejected_refresh_failed [of ?c ?w tok net st] show ?thesis
      by (simp add: 1 retry_request_interceptor)
  next
    case (RefreshData d)
    with a have "d = None" by (cases d) auto
    with a RefreshData rejected_refresh_no_data [of ?c ?w tok net] show ?thesis
      by (simp add: 1 retry_request_interceptor)
  qed
  show "auth (fst (apiClient net w config)) = logout (auth w)"
    "snd (apiClient net w config) = Reject ?e"
    "sent (fst (apiClient net w config)) = sent w @ [?c]"
    "refreshes (fst (apiClient net w config)) = refreshes w @ [tok]"
    by (simp_all add: r logout_and_redirect_def)
qed

theorem refresh_attempted_at_most_once_witness:
  "auth (fst (apiClient \<lparr>respond = \<lambda>n c. Inl (Some 401), refresh_respond = \<lambda>n t. RefreshFailed (Some 401)\<rparr>
       (initial_world initial_auth) (fresh_request ''/patients''))) = initial_auth
   \<and> snd (apiClient \<lparr>respond = \<lambda>n c. Inl (Some 401), refresh_respond = \<lambda>n t. RefreshFailed (Some 401)\<rparr>
       (initial_world initial_auth) (fresh_request ''/patients'')) =
       Reject (AxiosError (Some 401) \<lparr>url = ''/patients'', authorization = None, retry = True\<rparr>)
   \<and> sent (fst (apiClient \<lparr>respond = \<lambda>n c. Inl (Some 401), refresh_respond = \<lambda>n t. RefreshFailed (Some 401)\<rparr>
       (initial_world initial_auth) (fresh_request ''/patients''))) =
       [\<lparr>url = ''/patients'', authorization = None, retry = False\<rparr>]
   \<and> refreshes (fst (apiClient \<lparr>respond = \<lambda>n c. Inl (Some 401), refresh_respond = \<lambda>n t. RefreshFailed (Some 401)\<rparr>
       (initial_world initial_auth) (fresh_request ''/patients''))) = []
   \<and> auth (fst (apiClient \<lparr>respond = \<lambda>n c. Inl (Some 401), refresh_respond = \<lambda>n t. RefreshFailed (Some 401)\<rparr>
       (initial_world (updateTokens (Str ''a'') (Str ''r'') initial_auth))
       (fresh_request ''/patients''))) = initial_auth
   \<and> snd (apiClient \<lparr>respond = \<lambda>n c. Inl (Some 401), refresh_respond = \<lambda>n t. RefreshFailed (Some 401)\<rparr>
       (initial_world (updateTokens (Str ''a'') (Str ''r'') initial_auth))
       (fresh_request ''/patients'')) =
       Reject (AxiosError (Some 401) refresh_config)
   \<and> sent (fst (apiClient \<lparr>respond = \<lambda>n c. Inl (Some 401), refresh_respond = \<lambda>n t. RefreshFailed (Some 401)\<rparr>
       (initial_world (updateTokens (Str ''a'') (Str ''r'') initial_auth))
       (fresh_request ''/patients''))) =
       [\<lparr>url = ''/patients'', authorization = Some ''Bearer a'', retry = False\<rparr>]
   \<and> refreshes (fst (apiClient \<lparr>respond = \<lambda>n c. Inl (Some 401), refresh_respond = \<lambda>n t. RefreshFailed (Some 401)\<rparr>
       (initial_world (updateTokens (Str ''a'') (Str ''r'') initial_auth))
       (fresh_request ''/patients''))) = [Str ''r'']"
proof -
  let ?net = "\<lparr>respond = \<lambda>n c. Inl (Some 401), refresh_respond = \<lambda>n t. RefreshFailed (Some 401)\<rparr>
      :: network"
  let ?w0 = "initial_world initial_auth"
  let ?w1 = "initial_world (updateTokens (Str ''a'') (Str ''r'') initial_auth)"
  let ?c = "fresh_request ''/patients''"
  have h0: "\<not> retry ?c
      \<and> respond ?net (length (sent ?w0)) (request_interceptor (auth ?w0) ?c) = Inl (Some 401)
      \<and> \<not> truthy (refreshToken (auth ?w0))"
    by (simp add: fresh_request_def initial_world_def initial_auth_def)
  have h1: "\<not> retry ?c
      \<and> respond ?net (length (sent ?w1)) (request_interceptor (auth ?w1) ?c) = Inl (Some 401)
      \<and> refreshToken (auth ?w1) = Str ''r'' \<and> truthy (Str ''r'')
      \<and> (\<forall>t. refresh_respond ?net (length (refreshes ?w1)) (Str ''r'') \<noteq> RefreshData (Some t))"
    by (simp add: fresh_request_def initial_world_def initial_auth_def updateTokens_def)
  from h0 refresh_attempted_at_most_once [of ?net ?w0 ?c "Str ''r''"]
  have r0: "auth (fst (apiClient ?net ?w0 ?c)) = logout (auth ?w0)
      \<and> snd (apiClient ?net ?w0 ?c) =
          Reject (AxiosError (Some 401) ((request_interceptor (auth ?w0) ?c)\<lparr>retry := True\<rparr>))
      \<and> sent (fst (apiClient ?net ?w0 ?c)) = sent ?w0 @ [request_interceptor (auth ?w0) ?c]
      \<and> refreshes (fst (apiClient ?net ?w0 ?c)) = refreshes ?w0"
    by blast
  from h1 refresh_attempted_at_most_once [of ?net ?w1 ?c "Str ''r''"]
  have r1: "auth (fst (apiClient ?net ?w1 ?c)) = logout (auth ?w1)
      \<and> snd (apiClient ?net ?w1 ?c) =
          Reject (case refresh_respond ?net (length (refreshes ?w1)) (Str ''r'') of
                    RefreshFailed st \<Rightarrow> AxiosError st refresh_config
                  | RefreshData d \<Rightarrow> TypeError)
      \<and> sent (fst (apiClient ?net ?w1 ?c)) = sent ?w1 @ [request_interceptor (auth ?w1) ?c]
      \<and> refreshes (fst (apiClient ?net ?w1 ?c)) = refreshes ?w1 @ [Str ''r'']"
    by blast
  from r0 have "auth (fst (apiClient ?net ?w0 ?c)) = initial_auth
      \<and> snd (apiClient ?net ?w0 ?c) =
          Reject (AxiosError (Some 401) \<lparr>url = ''/patients'', authorization = None, retry = True\<rparr>)
      \<and> sent (fst (apiClient ?net ?w0 ?c)) =
          [\<lparr>url = ''/patients'', authorization = None, retry = False\<rparr>]
      \<and> refreshes (fst (apiClient ?net ?w0 ?c)) = []"
    by (simp add: fresh_request_def initial_world_def initial_auth_def logout_def
        request_interceptor_def)
  moreover from r1 have "auth (fst (apiClient ?net ?w1 ?c)) = initial_auth
      \<and> snd (apiClient ?net ?w1 ?c) = Reject (AxiosError (Some 401) refresh_config)
      \<and> sent (fst (apiClient ?net ?w1 ?c)) =
          [\<lparr>url = ''/patients'', authorization = Some ''Bearer a'', retry = False\<rparr>]
      \<and> refreshes (fst (apiClient ?net ?w1 ?c)) = [Str ''r'']"
    by (simp add: fresh_request_def initial_world_def initial_auth_def logout_def
        updateTokens_def request_interceptor_def)
  ultimately show ?thesis by blast
qed

section \<open>The detector's verdict\<close>

lemma evaluate_rules_invariant:
  "flag v = (matched_patterns v \<noteq> []) \<Longrightarrow>
   flag (evaluate_rules rules t v) = (matched_patterns (evaluate_rules rules t v) \<noteq> [])"
  by (induction rules t v rule: evaluate_rules.induct) simp_all

lemma matched_evaluate_rules:
  "matched_patterns (evaluate_rules rules t v) =
     matched_patterns v @ map fst (filter (\<lambda>r. snd r t) rules)"
  by (induction rules t v rule: evaluate_rules.induct) simp_all

text \<open>
  Claim C1. For every rule list and every input text, the verdict of \<open>detect\<close> has its
  flag set if and only if its sequence of matched patterns is not empty; the sequence
  holds, in rule order, the identifiers of exactly the rules that match the text.
\<close>

theorem detect_flag_iff_matched:
  "flag (detect rules t) = (matched_patterns (detect rules t) \<noteq> [])
   \<and> matched_patterns (detect rules t) = map fst (filter (\<lambda>r. snd r t) rules)"
  unfolding detect_def
  by (simp add: evaluate_rules_invariant matched_evaluate_rules)

section \<open>The generation client's retries\<close>

lemma attempt_from_last:
  "max_attempts \<le> n \<Longrightarrow>
   attempt_from provider prompt n =
     (case provider n prompt of Inr raw \<Rightarrow> (Inr raw, [Call n]) | Inl e \<Rightarrow> (Inl e, [Call n]))"
  by (subst attempt_from.simps) (simp split: sum.splits)

lemma attempt_from_calls:
  "length (filter is_call (snd (attempt_from provider prompt n))) \<le> Suc (max_attempts - n)"
proof (induction provider prompt n rule: attempt_from.induct)
  case (1 provider prompt n)
  show ?case
  proof (cases "provider n prompt")
    case (Inr raw)
    then show ?thesis by (subst attempt_from.simps) simp
  next
    case (Inl e)
    show ?thesis
    proof (cases "retriable e \<and> n < max_attempts")
      case True
      with Inl 1 have "length (filter is_call (snd (attempt_from provider prompt (Suc n))))
          \<le> Suc (max_attempts - Suc n)" by simp
      with Inl True show ?thesis
        by (subst attempt_from.simps) (auto simp: split_beta)
    next
      case False
      with Inl show ?thesis by (subst attempt_from.simps) auto
    qed
  qed
qed

lemma backoff_bounds: "Suc 0 \<le> backoff n" "backoff n \<le> 10"
  by (simp_all add: backoff_def)

lemma attempt_from_waits:
  "\<forall>d \<in> set (waits (snd (attempt_from provider prompt n))). 1 \<le> d \<and> d \<le> 10"
proof (induction provider prompt n rule: attempt_from.induct)
  case (1 provider prompt n)
  show ?case
  proof (cases "provider n prompt")
    case (Inr raw)
    then show ?thesis by (subst attempt_from.simps) simp
  next
    case (Inl e)
    show ?thesis
    proof (cases "retriable e \<and> n < max_attempts")
      case True
      with Inl 1 have "\<forall>d \<in> set (waits (snd (attempt_from provider prompt (Suc n)))). 1 \<le> d \<and> d \<le> 10"
        by simp
      with Inl True show ?thesis
        by (subst attempt_from.simps) (simp add: split_beta backoff_bounds)
    next
      case False
      with Inl show ?thesis by (subst attempt_from.simps) auto
    qed
  qed
qed

lemma generate_all_timeouts:
  assumes "\<forall>n. provider n prompt = Inl Timeout"
  shows "generate provider prompt = (Inl Timeout, [Call 1, Wait (backoff 1), Call 2])"
proof -
  have 2: "attempt_from provider prompt 2 = (Inl Timeout, [Call 2])"
    using assms by (simp add: attempt_from_last max_attempts_def)
  have "attempt_from provider prompt 1 = (Inl Timeout, [Call 1, Wait (backoff 1), Call 2])"
    using assms 2 by (subst attempt_from.simps) (simp add: max_attempts_def numeral_2_eq_2)
  then show ?thesis by (simp add: generate_def)
qed

text \<open>
  Claim C3. Whatever the provider answers, \<open>generate\<close> makes at most 2 calls and every
  pause it takes lasts between 1 and 10 seconds. When every attempt times out, it makes
  call 1, pauses for the backoff (between 1 and 10 seconds), makes call 2 and fails with
  \<open>Timeout\<close>: exactly 2 calls and one pause, never a third call.
\<close>

theorem generate_retry_bound:
  "length (filter is_call (snd (generate provider prompt))) \<le> 2
   \<and> (\<forall>d \<in> set (waits (snd (generate provider prompt))). 1 \<le> d \<and> d \<le> 10)
   \<and> ((\<forall>n. provider n prompt = Inl Timeout) \<longrightarrow>
        fst (generate provider prompt) = Inl Timeout
        \<and> snd (generate provider prompt) = [Call 1, Wait (backoff 1), Call 2]
        \<and> length (filter is_call (snd (generate provider prompt))) = 2
        \<and> waits (snd (generate provider prompt)) = [backoff 1]
        \<and> 1 \<le> backoff 1 \<and> backoff 1 \<le> 10)"
proof (intro conjI impI)
  show "length (filter is_call (snd (generate provider prompt))) \<le> 2"
    using attempt_from_calls [of provider prompt 1] by (simp add: generate_def max_attempts_def)
  show "\<forall>d \<in> set (waits (snd (generate provider prompt))). 1 \<le> d \<and> d \<le> 10"
    unfolding generate_def by (rule attempt_from_waits)
next
  assume a: "\<forall>n. provider n prompt = Inl Timeout"
  from a have g: "generate provider prompt = (Inl Timeout, [Call 1, Wait (backoff 1), Call 2])"
    by (rule generate_all_timeouts)
  show "fst (generate provider prompt) = Inl Timeout"
    "snd (generate provider prompt) = [Call 1, Wait (backoff 1), Call 2]"
    "length (filter is_call (snd (generate provider prompt))) = 2"
    "waits (snd (generate provider prompt)) = [backoff 1]"
    by (simp_all add: g)
  show "1 \<le> backoff 1" "backoff 1 \<le> 10"
    by (simp_all add: backoff_def)
qed

theorem generate_retry_bound_witness:
  "fst (generate (\<lambda>n p. Inl Timeout) ''prompt'') = Inl Timeout
   \<and> snd (generate (\<lambda>n p. Inl Timeout) ''prompt'') = [Call 1, Wait 1, Call 2]
   \<and> length (filter is_call (snd (generate (\<lambda>n p. Inl Timeout) ''prompt''))) = 2
   \<and> waits (snd (generate (\<lambda>n p. Inl Timeout) ''prompt'')) = [1]"
proof -
  have h: "\<forall>n. (\<lambda>n p. Inl Timeout :: generation_error + string) n ''prompt'' = Inl Timeout"
    by simp
  from h generate_retry_bound [of "\<lambda>n p. Inl Timeout" "''prompt''"]
  have "fst (generate (\<lambda>n p. Inl Timeout) ''prompt'') = Inl Timeout
      \<and> snd (generate (\<lambda>n p. Inl Timeout) ''prompt'') = [Call 1, Wait (backoff 1), Call 2]
      \<and> length (filter is_call (snd (generate (\<lambda>n p. Inl Timeout) ''prompt''))) = 2
      \<and> waits (snd (generate (\<lambda>n p. Inl Timeout) ''prompt'')) = [backoff 1]"
    by blast
  then show ?thesis by (simp add: backoff_def)
qed

section \<open>The single repair round\<close>

lemma validate_pass_repair:
  "validate_pass sch client RepairPass raw =
     (case parse_and_validate sch raw of
        Inr doc \<Rightarrow> (Inr doc, [])
      | Inl failure \<Rightarrow> (Inl (SchemaValidationError failure), []))"
  by (subst validate_pass.simps) (simp split: sum.splits)

lemma validate_pass_requests:
  "length (snd (validate_pass sch client p raw)) \<le> (case p of FirstPass \<Rightarrow> 1 | RepairPass \<Rightarrow> 0)"
proof (cases p)
  case RepairPass
  then show ?thesis by (simp add: validate_pass_repair split: sum.splits)
next
  case FirstPass
  then show ?thesis
    by (subst validate_pass.simps)
       (simp add: validate_pass_repair split_beta split: sum.splits)
qed

lemma validateAndRepair_both_fail:
  assumes "parse_and_validate sch rawOutput = Inl first_failure"
    and "client (repair_prompt sch rawOutput first_failure) = Inr repaired"
    and "parse_and_validate sch repaired = Inl last_failure"
  shows "validateAndRepair sch client rawOutput =
     (Inl (SchemaValidationError last_failure), [repair_prompt sch rawOutput first_failure])"
  unfolding validateAndRepair_def using assms
  by (subst validate_pass.simps) (simp add: validate_pass_repair)

text \<open>
  Claim C2. \<open>validateAndRepair\<close> issues at most one generation request, whatever the
  model and the schema are. When the first output fails Parse or Validate, the repair
  request is answered, and the repaired output fails Parse or Validate too, the result
  is \<open>SchemaValidationError\<close> with the failure of the repaired output, the last one,
  and the repair request is the only request issued.
\<close>

theorem repair_entered_at_most_once:
  "length (snd (validateAndRepair sch client rawOutput)) \<le> 1
   \<and> (parse_and_validate sch rawOutput = Inl first_failure
        \<and> client (repair_prompt sch rawOutput first_failure) = Inr repaired
        \<and> parse_and_validate sch repaired = Inl last_failure \<longrightarrow>
        fst (validateAndRepair sch client rawOutput) = Inl (SchemaValidationError last_failure)
        \<and> snd (validateAndRepair sch client rawOutput) = [repair_prompt sch rawOutput first_failure])"
proof (intro conjI impI)
  show "length (snd (validateAndRepair sch client rawOutput)) \<le> 1"
    using validate_pass_requests [of sch client FirstPass rawOutput]
    by (simp add: validateAndRepair_def)
next
  assume "parse_and_validate sch rawOutput = Inl first_failure
      \<and> client (repair_prompt sch rawOutput first_failure) = Inr repaired
      \<and> parse_and_validate sch repaired = Inl last_failure"
  then have r: "validateAndRepair sch client rawOutput =
      (Inl (SchemaValidationError last_failure), [repair_prompt sch rawOutput first_failure])"
    by (blast intro: validateAndRepair_both_fail)
  show "fst (validateAndRepair sch client rawOutput) = Inl (SchemaValidationError last_failure)"
    "snd (validateAndRepair sch client rawOutput) = [repair_prompt sch rawOutput first_failure]"
    by (simp_all add: r)
qed


theorem repair_entered_at_most_once_witness:
  "fst (validateAndRepair
      \<lparr>strip_fence = \<lambda>s. s,
       parse_json = \<lambda>s. if s = ''prose'' then Inl ''not JSON'' else Inr s,
       validate = \<lambda>j. Inl ''soap: field required'' :: string + unit,
       repair_prompt = \<lambda>raw f. ''reformat: '' @ raw\<rparr>
      (\<lambda>p. Inr ''{}'') ''prose'') =
      Inl (SchemaValidationError (SchemaFailure ''soap: field required''))
   \<and> snd (validateAndRepair
      \<lparr>strip_fence = \<lambda>s. s,
       parse_json = \<lambda>s. if s = ''prose'' then Inl ''not JSON'' else Inr s,
       validate = \<lambda>j. Inl ''soap: field required'' :: string + unit,
       repair_prompt = \<lambda>raw f. ''reformat: '' @ raw\<rparr>
      (\<lambda>p. Inr ''{}'') ''prose'') = [''reformat: prose'']"
proof -
  let ?sch = "\<lparr>strip_fence = \<lambda>s. s,
       parse_json = \<lambda>s. if s = ''prose'' then Inl ''not JSON'' else Inr s,
       validate = \<lambda>j. Inl ''soap: field required'' :: string + unit,
       repair_prompt = \<lambda>raw f. ''reformat: '' @ raw\<rparr>"
  let ?client = "\<lambda>p :: string. Inr ''{}'' :: generation_error + string"
  have h: "parse_and_validate ?sch ''prose'' = Inl (ParseFailure ''not JSON'')
      \<and> ?client (repair_prompt ?sch ''prose'' (ParseFailure ''not JSON'')) = Inr ''{}''
      \<and> parse_and_validate ?sch ''{}'' = Inl (SchemaFailure ''soap: field required'')"
    by (simp add: parse_and_validate_def)
  from h repair_entered_at_most_once
    [of ?sch ?client "''prose''" "ParseFailure ''not JSON''" "''{}''"
      "SchemaFailure ''soap: field required''"]
  have "fst (validateAndRepair ?sch ?client ''prose'') =
        Inl (SchemaValidationError (SchemaFailure ''soap: field required''))
      \<and> snd (validateAndRepair ?sch ?client ''prose'') =
        [repair_prompt ?sch ''prose'' (ParseFailure ''not JSON'')]"
    by blast
  then show ?thesis by simp
qed

end
